theory Spec2Isabelle
  imports Complex_Main
begin

section \<open>JavaScript values used by DrawerPopup\<close>

text \<open>
  A TypeScript \<^verbatim>\<open>number\<close> is a double: a finite value, which is a rational number, one
  of the two infinities, or \<^verbatim>\<open>NaN\<close>. The model takes every rational as a finite value
  (the doubles are among them; the two zeros are one value, which the component never
  tells apart). A value of type \<^verbatim>\<open>number | string\<close> is a \<open>jsval\<close>. An optional property
  (\<^verbatim>\<open>x?: T\<close>) is a \<open>T option\<close>, \<open>None\<close> standing for \<^verbatim>\<open>undefined\<close>.
\<close>

datatype number = Fin rat | PosInf | NegInf | NaN

datatype jsval = Num number | Str string

text \<open>Truthiness, as tested by \<^verbatim>\<open>if (x)\<close> and \<^verbatim>\<open>x && y\<close>.\<close>

fun truthy :: "bool option \<Rightarrow> bool" where
  "truthy None = False"
| "truthy (Some b) = b"

fun truthy_number :: "number \<Rightarrow> bool" where
  "truthy_number (Fin q) = (q \<noteq> 0)"
| "truthy_number PosInf = True"
| "truthy_number NegInf = True"
| "truthy_number NaN = False"

fun truthy_val :: "jsval \<Rightarrow> bool" where
  "truthy_val (Num n) = truthy_number n"
| "truthy_val (Str s) = (s \<noteq> [])"

text \<open>
  The two conversions of the language between numbers and strings are exact in the model
  where they are simple, and left to the runtime elsewhere: a \<open>runtime\<close> holds what the
  language does in the cases the model does not spell out, so that whatever is proved
  holds for every way of filling them.
\<close>

record runtime =
  number_to_string :: "number \<Rightarrow> string"
  string_to_number :: "string \<Rightarrow> number"

text \<open>
  An integer of magnitude at most \<open>2^53 - 1\<close> is a double, and it is printed (by a
  template literal \<^verbatim>\<open>`${n}`\<close>) with all its decimal digits, a minus sign in front when
  negative. The infinities and \<^verbatim>\<open>NaN\<close> are printed by name. How any other finite
  number is printed (fractions, exponent forms from \<^verbatim>\<open>1e21\<close>, the rounded digits of
  large integers) is the runtime's \<open>number_to_string\<close>.
\<close>

definition max_safe_integer :: int where
  "max_safe_integer = 9007199254740991"

definition safe_integer :: "rat \<Rightarrow> bool" where
  "safe_integer q =
     (snd (quotient_of q) = 1 \<and> \<bar>fst (quotient_of q)\<bar> \<le> max_safe_integer)"

fun digits :: "nat \<Rightarrow> string" where
  "digits n =
     (if n < 10 then [''0123456789'' ! n]
      else digits (n div 10) @ [''0123456789'' ! (n mod 10)])"

declare digits.simps [simp del]

text \<open>The decimal digits of an integer; \<open>show_number\<close> uses them for the safe integers only.\<close>

definition show_int :: "int \<Rightarrow> string" where
  "show_int i = (if i < 0 then CHR ''-'' # digits (nat (- i)) else digits (nat i))"

fun show_number :: "runtime \<Rightarrow> number \<Rightarrow> string" where
  "show_number js (Fin q) =
     (if safe_integer q then show_int (fst (quotient_of q)) else number_to_string js (Fin q))"
| "show_number js PosInf = ''Infinity''"
| "show_number js NegInf = ''-Infinity''"
| "show_number js NaN = ''NaN''"

fun template :: "runtime \<Rightarrow> jsval \<Rightarrow> string" where
  "template js (Num n) = show_number js n"
| "template js (Str s) = s"

text \<open>
  The unary minus of the source (\<^verbatim>\<open>-pushDistance\<close>) first converts a string operand to
  a number. A string of blanks is 0; a string that, between blanks, is decimal digits
  with an optional sign is that integer when its magnitude is at most \<open>2^53 - 1\<close>;
  \<^verbatim>\<open>Infinity\<close> with an optional sign is that infinity. How any other string is read
  (fractions, exponents, hexadecimal, longer digit strings, blanks beyond ASCII, and the
  strings that spell no number) is the runtime's \<open>string_to_number\<close>.
\<close>

definition is_blank :: "char \<Rightarrow> bool" where
  "is_blank c = (c \<in> set [CHR '' '', CHR 0x09, CHR 0x0A, CHR 0x0B, CHR 0x0C, CHR 0x0D])"

definition trim :: "string \<Rightarrow> string" where
  "trim s = rev (dropWhile is_blank (rev (dropWhile is_blank s)))"

fun position :: "char \<Rightarrow> string \<Rightarrow> nat option" where
  "position c [] = None"
| "position c (x # xs) = (if x = c then Some 0 else map_option Suc (position c xs))"

definition digit_value :: "char \<Rightarrow> nat option" where
  "digit_value c = position c ''0123456789''"

fun read_digits :: "nat \<Rightarrow> string \<Rightarrow> nat option" where
  "read_digits acc [] = Some acc"
| "read_digits acc (c # cs) =
     (case digit_value c of
        None \<Rightarrow> None
      | Some d \<Rightarrow> read_digits (10 * acc + d) cs)"

definition read_unsigned :: "string \<Rightarrow> nat option" where
  "read_unsigned s = (if s = [] then None else read_digits 0 s)"

definition read_integer :: "string \<Rightarrow> int option" where
  "read_integer t =
     (if t = [] then None
      else if hd t = CHR ''-'' then map_option (\<lambda>n. - int n) (read_unsigned (tl t))
      else if hd t = CHR ''+'' then map_option int (read_unsigned (tl t))
      else map_option int (read_unsigned t))"

definition ToNumber :: "runtime \<Rightarrow> string \<Rightarrow> number" where
  "ToNumber js s =
     (let t = trim s in
      if t = [] then Fin 0
      else if t = ''Infinity'' then PosInf
      else if t = ''+Infinity'' then PosInf
      else if t = ''-Infinity'' then NegInf
      else
        (case read_integer t of
           None \<Rightarrow> string_to_number js s
         | Some i \<Rightarrow>
             if \<bar>i\<bar> \<le> max_safe_integer then Fin (of_int i) else string_to_number js s))"

fun negate_number :: "number \<Rightarrow> number" where
  "negate_number (Fin q) = Fin (- q)"
| "negate_number PosInf = NegInf"
| "negate_number NegInf = PosInf"
| "negate_number NaN = NaN"

fun negate :: "runtime \<Rightarrow> jsval \<Rightarrow> jsval" where
  "negate js (Num n) = Num (negate_number n)"
| "negate js (Str s) = Num (negate_number (ToNumber js s))"

section \<open>Functions passed around, and the calls the component makes\<close>

text \<open>
  A function value is known by its identity: the \<^verbatim>\<open>push\<close> and \<^verbatim>\<open>pull\<close> closures of the
  context an overlay instance produces (they call that instance's \<^verbatim>\<open>setPushed\<close>), the
  \<^verbatim>\<open>onVisibleChanged\<close> closure an instance hands to its panel's transition, or a function
  the caller supplied. What the component does to its collaborators is recorded
  as the list of calls it makes, in order.
\<close>

datatype fn = PushOf nat | PullOf nat | VisibleChangedOf nat | External nat

record KeyboardEvent =
  keyCode :: nat
  shiftKey :: bool

datatype arg = NoArg | BoolArg bool | EventArg KeyboardEvent

datatype call =
    Call fn arg
  | Lock nat
  | UnLock nat
  | Focus nat bool

text \<open>
  \<open>Lock l\<close> and \<open>UnLock l\<close> are \<^verbatim>\<open>lock()\<close> and \<^verbatim>\<open>unLock()\<close> on the scroll locker
  object \<open>l\<close>; \<open>Focus e b\<close> is \<^verbatim>\<open>focus({ preventScroll: b })\<close> on the element \<open>e\<close>.
\<close>

text \<open>A ref cell holds \<^verbatim>\<open>undefined\<close> before the first commit, then an element or \<^verbatim>\<open>null\<close>.\<close>

datatype ref = Undefined | Null | Node nat

text \<open>\<^verbatim>\<open>f?.(a)\<close>: nothing happens when \<open>f\<close> is unset.\<close>

fun opt_call :: "fn option \<Rightarrow> arg \<Rightarrow> call list" where
  "opt_call None a = []"
| "opt_call (Some f) a = [Call f a]"

text \<open>\<^verbatim>\<open>f(a)\<close>: calling \<^verbatim>\<open>undefined\<close> throws a TypeError.\<close>

datatype fault = TypeError

fun invoke :: "fn option \<Rightarrow> arg \<Rightarrow> fault + call list" where
  "invoke None a = Inl TypeError"
| "invoke (Some f) a = Inr [Call f a]"

text \<open>\<^verbatim>\<open>ref.current?.focus({ preventScroll: true })\<close>.\<close>

fun focus :: "ref \<Rightarrow> call list" where
  "focus (Node e) = [Focus e True]"
| "focus Undefined = []"
| "focus Null = []"

text \<open>\<^verbatim>\<open>scrollLocker?.lock()\<close> and \<^verbatim>\<open>scrollLocker?.unLock()\<close>.\<close>

fun lock :: "nat option \<Rightarrow> call list" where
  "lock None = []"
| "lock (Some l) = [Lock l]"

fun unLock :: "nat option \<Rightarrow> call list" where
  "unLock None = []"
| "unLock (Some l) = [UnLock l]"

section \<open>Push distance\<close>

datatype Placement = Left | Right | Top | Bottom

record PushConfig =
  distance :: "jsval option"

text \<open>The prop \<^verbatim>\<open>push?: boolean | PushConfig\<close>.\<close>

datatype push_prop = PushBool bool | PushObj PushConfig

text \<open>
  Modelled from the spec: \<^verbatim>\<open>DrawerContextProps\<close> is declared in \<^verbatim>\<open>./context\<close>, which is
  not among the sources. The specification gives a stacking context the members
  \<^verbatim>\<open>pushDistance\<close>, \<^verbatim>\<open>push\<close> and \<^verbatim>\<open>pull\<close>; the component reads each of them through
  \<^verbatim>\<open>?.\<close>, so each may be unset, and the context itself may be absent.
\<close>

record DrawerContextProps =
  ctx_pushDistance :: "jsval option"
  ctx_push :: "fn option"
  ctx_pull :: "fn option"

text \<open>Lines 156-165: the push configuration merged from the \<^verbatim>\<open>push\<close> prop.\<close>

definition pushConfig :: "push_prop option \<Rightarrow> PushConfig" where
  "pushConfig push =
     (if push = Some (PushBool False) then \<lparr>distance = Some (Num (Fin 0))\<rparr>
      else if push = Some (PushBool True) then \<lparr>distance = None\<rparr>
      else (case push of
              Some (PushObj c) \<Rightarrow> c
            | _ \<Rightarrow> \<lparr>distance = None\<rparr>))"

text \<open>
  Lines 166-167:
  \<^verbatim>\<open>pushConfig?.distance ?? parentContext?.pushDistance ?? 180\<close>.
\<close>

definition pushDistance :: "push_prop option \<Rightarrow> DrawerContextProps option \<Rightarrow> jsval" where
  "pushDistance push parentContext =
     (case distance (pushConfig push) of
        Some d \<Rightarrow> d
      | None \<Rightarrow>
          (case Option.bind parentContext ctx_pushDistance of
             Some d \<Rightarrow> d
           | None \<Rightarrow> Num (Fin 180)))"

text \<open>Lines 169-180: the context an overlay instance hands to its descendants.\<close>

definition mergedContext :: "nat \<Rightarrow> jsval \<Rightarrow> DrawerContextProps" where
  "mergedContext self d =
     \<lparr>ctx_pushDistance = Some d, ctx_push = Some (PushOf self), ctx_pull = Some (PullOf self)\<rparr>"

section \<open>Styles and class names\<close>

type_synonym CSSProperties = "string \<rightharpoonup> jsval"

text \<open>Spreading an optional object: \<^verbatim>\<open>{...undefined}\<close> adds nothing.\<close>

fun spread :: "CSSProperties option \<Rightarrow> CSSProperties" where
  "spread None = Map.empty"
| "spread (Some m) = m"

text \<open>
  The \<^verbatim>\<open>classnames\<close> function on the arguments the component gives it: a string (kept
  when defined and non-empty) or an object (its keys with a truthy value, in order).
  The result joins the kept names with single blanks.
\<close>

datatype class_arg = ClassStr "string option" | ClassObj "(string \<times> bool) list"

fun class_tokens :: "class_arg \<Rightarrow> string list" where
  "class_tokens (ClassStr None) = []"
| "class_tokens (ClassStr (Some s)) = (if s = [] then [] else [s])"
| "class_tokens (ClassObj kvs) = map fst (filter snd kvs)"

fun join_blank :: "string list \<Rightarrow> string" where
  "join_blank [] = []"
| "join_blank [s] = s"
| "join_blank (s # t # ts) = s @ '' '' @ join_blank (t # ts)"

definition classNames :: "class_arg list \<Rightarrow> string" where
  "classNames args = join_blank (concat (map class_tokens args))"

text \<open>Lines 209-212.\<close>

definition zIndexStyle :: "number option \<Rightarrow> CSSProperties" where
  "zIndexStyle zIndex =
     (case zIndex of
        None \<Rightarrow> Map.empty
      | Some z \<Rightarrow> if truthy_number z then [''zIndex'' \<mapsto> Num z] else Map.empty)"

text \<open>Lines 244-261; a placement that is unset takes the \<^verbatim>\<open>default\<close> branch.\<close>

definition wrapperStyle :: "runtime \<Rightarrow> bool \<Rightarrow> jsval \<Rightarrow> Placement option \<Rightarrow> CSSProperties" where
  "wrapperStyle js pushed d placement =
     (if pushed \<and> truthy_val d then
        (case placement of
           Some Top \<Rightarrow> [''transform'' \<mapsto> Str (''translateY('' @ template js d @ ''px)'')]
         | Some Bottom \<Rightarrow>
             [''transform'' \<mapsto> Str (''translateY('' @ template js (negate js d) @ ''px)'')]
         | Some Left \<Rightarrow> [''transform'' \<mapsto> Str (''translateX('' @ template js d @ ''px)'')]
         | _ \<Rightarrow> [''transform'' \<mapsto> Str (''translateX('' @ template js (negate js d) @ ''px)'')])
      else Map.empty)"

section \<open>The transition engine\<close>

text \<open>
  The props of the \<^verbatim>\<open>CSSMotion\<close> component that this file sets or that decide whether
  the animated element exists. \<^verbatim>\<open>CSSMotionProps\<close> comes from the package \<^verbatim>\<open>rc-motion\<close>;
  the fields below are the ones the source passes as attributes of \<^verbatim>\<open>CSSMotion\<close>, so a
  caller's \<^verbatim>\<open>motion\<close> or \<^verbatim>\<open>maskMotion\<close> object may carry them too.
\<close>

record CSSMotionProps =
  motionName :: "string option"
  motion_visible :: "bool option"
  motion_forceRender :: "bool option"
  motion_removeOnLeave :: "bool option"
  motion_leavedClassName :: "string option"
  motion_onVisibleChanged :: "fn option"

definition no_motion :: CSSMotionProps where
  "no_motion =
     \<lparr>motionName = None, motion_visible = None, motion_forceRender = None,
      motion_removeOnLeave = None, motion_leavedClassName = None,
      motion_onVisibleChanged = None\<rparr>"

fun spread_motion :: "CSSMotionProps option \<Rightarrow> CSSMotionProps" where
  "spread_motion None = no_motion"
| "spread_motion (Some m) = m"

text \<open>
  The state of one animated element, in the words of the specification: its phase, whether
  it has been mounted before, and the class and style the engine gives the element while
  it is shown or in transition.
\<close>

datatype phase = Hidden | Entering | Visible | Leaving

record motion_state =
  phase :: phase
  rendered :: bool
  transition_className :: "string option"
  transition_style :: CSSProperties

text \<open>
  Modelled from the spec: the transition engine (\<^verbatim>\<open>CSSMotion\<close> of \<^verbatim>\<open>rc-motion\<close>) is not
  among the sources. By sections 3, 4.3 and 6 of the specification the element is
  mounted whenever it is requested visible or a transition is running; once hidden it
  is removed, unless the engine runs in the \<^verbatim>\<open>removeOnLeave=false\<close> mode, where an
  element that was mounted before is retained and carries the "leaved" marker class, or
  \<^verbatim>\<open>forceRender\<close> is set, where the element exists while hidden too. The function
  gives the child the engine renders, if any.
\<close>

definition motion_render ::
  "CSSMotionProps \<Rightarrow> motion_state \<Rightarrow> (string option \<Rightarrow> CSSProperties \<Rightarrow> 'v) \<Rightarrow> 'v option" where
  "motion_render mp st child =
     (if truthy (motion_visible mp) then
        Some (child (transition_className st) (transition_style st))
      else if phase st = Hidden then
        (if motion_removeOnLeave mp = Some False \<and> rendered st then
           Some (child (motion_leavedClassName mp) Map.empty)
         else if truthy (motion_forceRender mp) then
           Some (child None Map.empty)
         else None)
      else Some (child (transition_className st) (transition_style st)))"

section \<open>The rendered tree\<close>

record div_props =
  div_className :: "string option"
  div_style :: CSSProperties
  tabIndex :: "int option"
  aria_hidden :: "string option"
  data_sentinel :: "string option"
  onClick :: "fn option"
  onKeyDown :: bool

text \<open>
  The props handed to \<^verbatim>\<open>DrawerPanel\<close> (a component of \<^verbatim>\<open>./DrawerPanel\<close>, kept as a leaf
  of the tree together with the caller's children). The refs that the engine threads to
  the animated elements (\<^verbatim>\<open>maskRef\<close>, \<^verbatim>\<open>motionRef\<close>) carry no behaviour of this file and
  are left out of the tree.
\<close>

record panel_props =
  panel_prefixCls :: string
  panel_className :: string
  panel_style :: CSSProperties
  panel_width :: "jsval option"
  panel_height :: "jsval option"
  panel_placement :: "Placement option"

text \<open>
  A \<open>CSSMotion\<close> node keeps its key, the props it was given and the child the engine
  renders for it (\<open>None\<close> when the engine renders nothing). \<open>Foreign\<close> is a node of the
  caller.
\<close>

datatype vnode =
    Div div_props "vnode list"
  | CSSMotion string CSSMotionProps "vnode option"
  | DrawerPanel panel_props "vnode list"
  | Foreign nat

definition plain_div :: div_props where
  "plain_div =
     \<lparr>div_className = None, div_style = Map.empty, tabIndex = None, aria_hidden = None,
      data_sentinel = None, onClick = None, onKeyDown = False\<rparr>"

section \<open>Props\<close>

datatype motion_prop = MotionProps CSSMotionProps | MotionFn "Placement option \<Rightarrow> CSSMotionProps"

record DrawerPopupProps =
  prefixCls :: string
  "open" :: "bool option"
  inline :: "bool option"
  push :: "push_prop option"
  forceRender :: "bool option"
  autoFocus :: "bool option"
  keyboard :: "bool option"
  scrollLocker :: "nat option"
  rootClassName :: "string option"
  rootStyle :: "CSSProperties option"
  zIndex :: "number option"
  placement :: "Placement option"
  className :: "string option"
  style :: "CSSProperties option"
  children :: "vnode list"
  width :: "jsval option"
  height :: "jsval option"
  contentWrapperStyle :: "CSSProperties option"
  mask :: "bool option"
  maskClosable :: "bool option"
  maskClassName :: "(string \<times> jsval) list option"
  maskStyle :: "CSSProperties option"
  motion :: "motion_prop option"
  maskMotion :: "CSSMotionProps option"
  afterOpenChange :: "fn option"
  onClose :: "fn option"

section \<open>Rendering\<close>

fun placement_name :: "Placement option \<Rightarrow> string" where
  "placement_name None = ''undefined''"
| "placement_name (Some Left) = ''left''"
| "placement_name (Some Right) = ''right''"
| "placement_name (Some Top) = ''top''"
| "placement_name (Some Bottom) = ''bottom''"

text \<open>Line 242: \<^verbatim>\<open>typeof motion === 'function' ? motion(placement) : motion\<close>.\<close>

fun motionProps :: "motion_prop option \<Rightarrow> Placement option \<Rightarrow> CSSMotionProps option" where
  "motionProps None pl = None"
| "motionProps (Some (MotionProps m)) pl = Some m"
| "motionProps (Some (MotionFn f)) pl = Some (f pl)"

text \<open>
  \<^verbatim>\<open>maskClassName\<close> is only ever passed to \<^verbatim>\<open>classNames\<close>, as an object whose keys count
  when their value is truthy.
\<close>

fun mask_class_arg :: "(string \<times> jsval) list option \<Rightarrow> class_arg" where
  "mask_class_arg None = ClassStr None"
| "mask_class_arg (Some kvs) = ClassObj (map (\<lambda>kv. (fst kv, truthy_val (snd kv))) kvs)"

text \<open>Lines 216: the props of the mask's \<^verbatim>\<open>CSSMotion\<close>, \<^verbatim>\<open>visible\<close> written after the spread.\<close>

definition mask_motion_props :: "DrawerPopupProps \<Rightarrow> CSSMotionProps" where
  "mask_motion_props p = (spread_motion (maskMotion p))\<lparr>motion_visible := open p\<rparr>"

text \<open>Lines 222-235: the mask element, given the class and style the engine supplies.\<close>

definition mask_div :: "DrawerPopupProps \<Rightarrow> string option \<Rightarrow> CSSProperties \<Rightarrow> vnode" where
  "mask_div p motionMaskClassName motionMaskStyle =
     Div (plain_div
           \<lparr>div_className :=
              Some (classNames [ClassStr (Some (prefixCls p @ ''-mask'')),
                                ClassStr motionMaskClassName,
                                mask_class_arg (maskClassName p)]),
            div_style := motionMaskStyle ++ spread (maskStyle p) ++ zIndexStyle (zIndex p),
            onClick := (if truthy (maskClosable p) then onClose p else None)\<rparr>) []"

text \<open>Lines 215-239: \<^verbatim>\<open>mask && <CSSMotion key="mask" ...>\<close>; nothing when \<^verbatim>\<open>mask\<close> is falsy.\<close>

definition maskNode :: "DrawerPopupProps \<Rightarrow> motion_state \<Rightarrow> vnode option" where
  "maskNode p mask_st =
     (if truthy (mask p) then
        Some (CSSMotion ''mask'' (mask_motion_props p)
               (motion_render (mask_motion_props p) mask_st (mask_div p)))
      else None)"

text \<open>
  Lines 272-285: the props of the panel's \<^verbatim>\<open>CSSMotion\<close>; the five attributes written
  after the spread replace whatever \<^verbatim>\<open>motionProps\<close> carried.
\<close>

definition panel_motion_props :: "nat \<Rightarrow> DrawerPopupProps \<Rightarrow> CSSMotionProps" where
  "panel_motion_props self p =
     (spread_motion (motionProps (motion p) (placement p)))
       \<lparr>motion_visible := open p,
        motion_forceRender := forceRender p,
        motion_onVisibleChanged := Some (VisibleChangedOf self),
        motion_removeOnLeave := Some False,
        motion_leavedClassName := Some (prefixCls p @ ''-content-hidden'')\<rparr>"

text \<open>Lines 286-303: the panel, given the class and style the engine supplies.\<close>

definition panel_element :: "DrawerPopupProps \<Rightarrow> string option \<Rightarrow> CSSProperties \<Rightarrow> vnode" where
  "panel_element p motionClassName motionStyle =
     DrawerPanel
       \<lparr>panel_prefixCls = prefixCls p,
        panel_className = classNames [ClassStr (className p), ClassStr motionClassName],
        panel_style = motionStyle ++ spread (style p),
        panel_width = width p,
        panel_height = height p,
        panel_placement = placement p\<rparr>
       (children p)"

text \<open>Lines 263-306: the content wrapper with the animated panel inside.\<close>

definition panelNode ::
  "runtime \<Rightarrow> nat \<Rightarrow> DrawerPopupProps \<Rightarrow> DrawerContextProps option \<Rightarrow> bool \<Rightarrow> motion_state
     \<Rightarrow> vnode" where
  "panelNode js self p parentContext pushed panel_st =
     Div (plain_div
           \<lparr>div_className := Some (classNames [ClassStr (Some (prefixCls p @ ''-content-wrapper''))]),
            div_style :=
              wrapperStyle js pushed (pushDistance (push p) parentContext) (placement p)
                ++ spread (contentWrapperStyle p) ++ zIndexStyle (zIndex p)\<rparr>)
       [CSSMotion ''panel'' (panel_motion_props self p)
          (motion_render (panel_motion_props self p) panel_st (panel_element p))]"

text \<open>Lines 326-332 and 334-340: the two focus sentinels.\<close>

definition sentinel :: "string \<Rightarrow> vnode" where
  "sentinel which =
     Div (plain_div
           \<lparr>div_style :=
              [''width'' \<mapsto> Num (Fin 0), ''height'' \<mapsto> Num (Fin 0), ''overflow'' \<mapsto> Str ''hidden'',
               ''outline'' \<mapsto> Str ''none'', ''position'' \<mapsto> Str ''absolute''],
            tabIndex := Some 0,
            aria_hidden := Some ''true'',
            data_sentinel := Some which\<rparr>) []"

fun maybe :: "'a option \<Rightarrow> 'a list" where
  "maybe None = []"
| "maybe (Some x) = [x]"

text \<open>
  Lines 309-343: one render of the instance \<open>self\<close> under the runtime \<open>js\<close>, from its
  props, the context of the nearest ancestor, its own \<^verbatim>\<open>pushed\<close> state and the states of the two animated elements.
  The result is the value given to \<^verbatim>\<open>DrawerContext.Provider\<close> and the root element.
\<close>

definition render ::
  "runtime \<Rightarrow> nat \<Rightarrow> DrawerPopupProps \<Rightarrow> DrawerContextProps option \<Rightarrow> bool \<Rightarrow> motion_state \<Rightarrow> motion_state
     \<Rightarrow> DrawerContextProps \<times> vnode" where
  "render js self p parentContext pushed mask_st panel_st =
     (mergedContext self (pushDistance (push p) parentContext),
      Div (plain_div
            \<lparr>div_className :=
               Some (classNames [ClassStr (Some (prefixCls p)),
                                 ClassStr (Some (prefixCls p @ ''-'' @ placement_name (placement p))),
                                 ClassStr (rootClassName p),
                                 ClassObj [(prefixCls p @ ''-inline'', truthy (inline p))]]),
             div_style := spread (rootStyle p),
             tabIndex := Some (- 1),
             onKeyDown := True\<rparr>)
        (maybe (maskNode p mask_st)
           @ [sentinel ''start'', panelNode js self p parentContext pushed panel_st,
              sentinel ''end'']))"

text \<open>Reading the tree.\<close>

fun node_children :: "vnode \<Rightarrow> vnode list" where
  "node_children (Div a cs) = cs"
| "node_children (CSSMotion k m c) = maybe c"
| "node_children (DrawerPanel a cs) = cs"
| "node_children (Foreign n) = []"

fun node_style :: "vnode \<Rightarrow> CSSProperties" where
  "node_style (Div a cs) = div_style a"
| "node_style (CSSMotion k m c) = Map.empty"
| "node_style (DrawerPanel a cs) = panel_style a"
| "node_style (Foreign n) = Map.empty"

fun node_class :: "vnode \<Rightarrow> string option" where
  "node_class (Div a cs) = div_className a"
| "node_class (CSSMotion k m c) = None"
| "node_class (DrawerPanel a cs) = Some (panel_className a)"
| "node_class (Foreign n) = None"

fun node_sentinel :: "vnode \<Rightarrow> string option" where
  "node_sentinel (Div a cs) = data_sentinel a"
| "node_sentinel (CSSMotion k m c) = None"
| "node_sentinel (DrawerPanel a cs) = None"
| "node_sentinel (Foreign n) = None"

fun motion_key :: "vnode \<Rightarrow> string option" where
  "motion_key (CSSMotion k m c) = Some k"
| "motion_key (Div a cs) = None"
| "motion_key (DrawerPanel a cs) = None"
| "motion_key (Foreign n) = None"

section \<open>Keyboard handling\<close>

text \<open>The key codes of \<^verbatim>\<open>rc-util/lib/KeyCode\<close>.\<close>

definition TAB :: nat where "TAB = 9"

definition ESC :: nat where "ESC = 27"

record refs =
  panelRef :: ref
  sentinelStartRef :: ref
  sentinelEndRef :: ref

text \<open>
  Lines 113-140. \<open>activeElement\<close> is \<^verbatim>\<open>document.activeElement\<close>, and \<open>=\<close> on \<open>ref\<close> is the
  \<^verbatim>\<open>===\<close> of the source. The result is the list of calls made, or the fault thrown.
\<close>

definition onPanelKeyDown ::
  "DrawerPopupProps \<Rightarrow> refs \<Rightarrow> ref \<Rightarrow> KeyboardEvent \<Rightarrow> fault + call list" where
  "onPanelKeyDown p r activeElement event =
     (if keyCode event = TAB then
        (if \<not> shiftKey event \<and> activeElement = sentinelEndRef r then
           Inr (focus (sentinelStartRef r))
         else if shiftKey event \<and> activeElement = sentinelStartRef r then
           Inr (focus (sentinelEndRef r))
         else Inr [])
      else if keyCode event = ESC then
        (if onClose p \<noteq> None \<and> truthy (keyboard p) then invoke (onClose p) (EventArg event)
         else Inr [])
      else Inr [])"

section \<open>Effects and the life of an instance\<close>

text \<open>
  What React keeps for one mounted instance: the props and the ancestor context of the
  latest render (the dependencies of the effects are compared against them, and the
  event handlers of the latest render close over them), the ref cells, and the scroll
  locker and ancestor context of the first render, which the clean-up closure of the
  effect with the empty dependency list holds on to.
\<close>

record mounted =
  inst_self :: nat
  inst_props :: DrawerPopupProps
  inst_context :: "DrawerContextProps option"
  inst_refs :: refs
  mount_scrollLocker :: "nat option"
  mount_parentContext :: "DrawerContextProps option"

text \<open>Lines 144-148.\<close>

definition autoFocus_effect :: "DrawerPopupProps \<Rightarrow> refs \<Rightarrow> call list" where
  "autoFocus_effect p r =
     (if truthy (open p) \<and> truthy (autoFocus p) then focus (panelRef r) else [])"

text \<open>Lines 184-190.\<close>

definition push_effect :: "DrawerPopupProps \<Rightarrow> DrawerContextProps option \<Rightarrow> call list" where
  "push_effect p ctx =
     (if truthy (open p) then opt_call (Option.bind ctx ctx_push) NoArg
      else opt_call (Option.bind ctx ctx_pull) NoArg)"

text \<open>Lines 193-197.\<close>

definition lock_effect :: "DrawerPopupProps \<Rightarrow> call list" where
  "lock_effect p =
     (if truthy (open p) \<and> truthy (mask p) then lock (scrollLocker p) else [])"

text \<open>Lines 200-206: the clean-up run at unmount.\<close>

definition cleanup :: "mounted \<Rightarrow> call list" where
  "cleanup inst =
     unLock (mount_scrollLocker inst)
       @ opt_call (Option.bind (mount_parentContext inst) ctx_pull) NoArg"

text \<open>The first render commits, then every effect runs, in the order of the source.\<close>

definition mount ::
  "nat \<Rightarrow> DrawerPopupProps \<Rightarrow> DrawerContextProps option \<Rightarrow> refs \<Rightarrow> mounted \<times> call list" where
  "mount self p ctx r =
     (\<lparr>inst_self = self, inst_props = p, inst_context = ctx, inst_refs = r,
       mount_scrollLocker = scrollLocker p, mount_parentContext = ctx\<rparr>,
      autoFocus_effect p r @ push_effect p ctx @ lock_effect p)"

text \<open>
  A later render: an effect runs again when one of its dependencies differs from the
  previous render's (\<^verbatim>\<open>[open, autoFocus]\<close>, \<^verbatim>\<open>[open]\<close>, \<^verbatim>\<open>[open, mask]\<close>).
\<close>

definition rerender ::
  "DrawerPopupProps \<Rightarrow> DrawerContextProps option \<Rightarrow> mounted \<Rightarrow> mounted \<times> call list" where
  "rerender p ctx inst =
     (inst\<lparr>inst_props := p, inst_context := ctx\<rparr>,
      (if open p = open (inst_props inst) \<and> autoFocus p = autoFocus (inst_props inst) then []
       else autoFocus_effect p (inst_refs inst))
      @ (if open p = open (inst_props inst) then [] else push_effect p ctx)
      @ (if open p = open (inst_props inst) \<and> mask p = mask (inst_props inst) then []
         else lock_effect p))"

definition unmount :: "mounted \<Rightarrow> call list" where
  "unmount inst = cleanup inst"

text \<open>Lines 277-282: the completion report of the panel's transition.\<close>

definition onVisibleChanged :: "DrawerPopupProps \<Rightarrow> bool \<Rightarrow> call list" where
  "onVisibleChanged p nextVisible =
     opt_call (afterOpenChange p) (BoolArg nextVisible)
       @ (if nextVisible then [] else unLock (scrollLocker p))"

text \<open>
  What happens to a mounted instance: it is rendered again, or the engine reports that
  the panel's transition is complete.
\<close>

datatype event = Render DrawerPopupProps "DrawerContextProps option" | VisibleChanged bool

fun step :: "mounted \<Rightarrow> event \<Rightarrow> mounted \<times> call list" where
  "step inst (Render p ctx) = rerender p ctx inst"
| "step inst (VisibleChanged b) = (inst, onVisibleChanged (inst_props inst) b)"

fun run :: "mounted \<Rightarrow> event list \<Rightarrow> mounted \<times> call list" where
  "run inst [] = (inst, [])"
| "run inst (e # es) =
     (case step inst e of (i1, c1) \<Rightarrow> (case run i1 es of (i2, c2) \<Rightarrow> (i2, c1 @ c2)))"

text \<open>Every call of an instance from mount to unmount.\<close>

definition lifetime ::
  "nat \<Rightarrow> DrawerPopupProps \<Rightarrow> DrawerContextProps option \<Rightarrow> refs \<Rightarrow> event list \<Rightarrow> call list" where
  "lifetime self p ctx r es =
     (case mount self p ctx r of
        (i0, c0) \<Rightarrow> (case run i0 es of (i1, c1) \<Rightarrow> c0 @ c1 @ unmount i1))"



text \<open>The calls on the scroll locker among a list of calls.\<close>

fun is_locker_call :: "call \<Rightarrow> bool" where
  "is_locker_call (Lock l) = True"
| "is_locker_call (UnLock l) = True"
| "is_locker_call (Call f a) = False"
| "is_locker_call (Focus e b) = False"

definition locker_calls :: "call list \<Rightarrow> call list" where
  "locker_calls cs = filter is_locker_call cs"

text \<open>
  The discipline "never \<^verbatim>\<open>lock()\<close> twice without an \<^verbatim>\<open>unlock()\<close> in between", read over a
  list of calls; \<open>held\<close> says whether the last locker call so far was a \<^verbatim>\<open>lock()\<close>.
\<close>

fun lock_discipline :: "bool \<Rightarrow> call list \<Rightarrow> bool" where
  "lock_discipline held [] = True"
| "lock_discipline held (Lock l # cs) = (if held then False else lock_discipline True cs)"
| "lock_discipline held (UnLock l # cs) = lock_discipline False cs"
| "lock_discipline held (Call f a # cs) = lock_discipline held cs"
| "lock_discipline held (Focus e b # cs) = lock_discipline held cs"

text \<open>Every render among the events asks for an open overlay with a mask.\<close>

fun open_and_masked :: "event list \<Rightarrow> bool" where
  "open_and_masked [] = True"
| "open_and_masked (Render p ctx # es) = (truthy (open p) \<and> truthy (mask p) \<and> open_and_masked es)"
| "open_and_masked (VisibleChanged b # es) = open_and_masked es"

text \<open>
  The \<^verbatim>\<open>lock()\<close> calls to expect when \<^verbatim>\<open>lock()\<close> is made exactly by the renders in which
  \<^verbatim>\<open>open && mask\<close> turns from false to true; \<open>was_on\<close> is its value at the previous render.
\<close>

fun lock_on_rising_edge :: "bool \<Rightarrow> event list \<Rightarrow> call list" where
  "lock_on_rising_edge was_on [] = []"
| "lock_on_rising_edge was_on (Render p ctx # es) =
     (if truthy (open p) \<and> truthy (mask p) then
        (if was_on then [] else lock (scrollLocker p)) @ lock_on_rising_edge True es
      else lock_on_rising_edge False es)"
| "lock_on_rising_edge was_on (VisibleChanged b # es) = lock_on_rising_edge was_on es"

fun is_lock :: "call \<Rightarrow> bool" where
  "is_lock (Lock l) = True"
| "is_lock (UnLock l) = False"
| "is_lock (Call f a) = False"
| "is_lock (Focus e b) = False"



section \<open>Sample inputs\<close>

text \<open>
  A runtime for the samples. They print and read integers of a few digits only, which
  the model converts itself, so what this runtime holds is never consulted.
\<close>

definition plain_runtime :: runtime where
  "plain_runtime = \<lparr>number_to_string = (\<lambda>x. []), string_to_number = (\<lambda>s. NaN)\<rparr>"

definition default_props :: DrawerPopupProps where
  "default_props =
     \<lparr>prefixCls = ''rc-drawer'', open = None, inline = None, push = None, forceRender = None,
      autoFocus = None, keyboard = None, scrollLocker = None, rootClassName = None,
      rootStyle = None, zIndex = None, placement = None, className = None, style = None,
      children = [], width = None, height = None, contentWrapperStyle = None, mask = None,
      maskClosable = None, maskClassName = None, maskStyle = None, motion = None,
      maskMotion = None, afterOpenChange = None, onClose = None\<rparr>"

definition mounted_refs :: refs where
  "mounted_refs = \<lparr>panelRef = Node 0, sentinelStartRef = Node 1, sentinelEndRef = Node 2\<rparr>"

text \<open>An element whose leave transition has completed, and one that is shown.\<close>

definition leaved :: motion_state where
  "leaved = \<lparr>phase = Hidden, rendered = True, transition_className = None,
             transition_style = Map.empty\<rparr>"

definition shown :: motion_state where
  "shown = \<lparr>phase = Visible, rendered = True, transition_className = None,
            transition_style = Map.empty\<rparr>"

definition open_locked_props :: DrawerPopupProps where
  "open_locked_props =
     default_props\<lparr>open := Some True, mask := Some True, scrollLocker := Some 0\<rparr>"

text \<open>An overlay 2 mounted under the overlay 1, closed and open.\<close>

definition closed_child :: mounted where
  "closed_child =
     fst (mount 2 default_props (Some (mergedContext 1 (Num (Fin 180)))) mounted_refs)"


text \<open>An overlay mounted open, with a mask and the scroll locker 0.\<close>

definition open_locked :: mounted where
  "open_locked = fst (mount 0 open_locked_props None mounted_refs)"

text \<open>A closed overlay with a mask whose \<^verbatim>\<open>maskMotion\<close> asks the engine to keep the element.\<close>

definition retaining_mask_props :: DrawerPopupProps where
  "retaining_mask_props =
     default_props
       \<lparr>open := Some False, mask := Some True,
        maskMotion := Some (no_motion\<lparr>motion_removeOnLeave := Some False,
                                      motion_leavedClassName := Some ''mask-hidden''\<rparr>)\<rparr>"

text \<open>A closed overlay with a mask, a scroll locker and an \<^verbatim>\<open>afterOpenChange\<close> callback.\<close>

definition closed_masked_props :: DrawerPopupProps where
  "closed_masked_props =
     default_props\<lparr>open := Some False, mask := Some True, scrollLocker := Some 0,
                   afterOpenChange := Some (External 3)\<rparr>"


definition layered_props :: DrawerPopupProps where
  "layered_props = default_props\<lparr>zIndex := Some (Fin 7), mask := Some True, open := Some True\<rparr>"

definition zero_layer_props :: DrawerPopupProps where
  "zero_layer_props = default_props\<lparr>zIndex := Some (Fin 0), mask := Some True, open := Some True\<rparr>"

section \<open>Push distance: the order of precedence\<close>

text \<open>
  Claim C1. The push distance of a render is resolved by precedence. A numeric distance
  written in the overlay's own push configuration wins, whatever the ancestor supplies.
  With no distance of its own (no \<^verbatim>\<open>push\<close> prop, \<^verbatim>\<open>push = true\<close>, or a configuration
  without distance) the overlay takes the ancestor context's distance, and 180 when
  there is no ancestor or the ancestor gives none. In particular \<^verbatim>\<open>push = false\<close> gives 0
  and \<^verbatim>\<open>push = {distance: 40}\<close> gives 40 under every ancestor, \<^verbatim>\<open>push = true\<close> under an
  ancestor with distance 120 gives 120, and no push prop with no ancestor gives 180.
\<close>

theorem pushDistance_precedence:
  "pushDistance (Some (PushObj \<lparr>distance = Some (Num n)\<rparr>)) ctx = Num n
   \<and> pushDistance None (Some (c\<lparr>ctx_pushDistance := Some a\<rparr>)) = a
   \<and> pushDistance (Some (PushBool True)) (Some (c\<lparr>ctx_pushDistance := Some a\<rparr>)) = a
   \<and> pushDistance (Some (PushObj \<lparr>distance = None\<rparr>)) (Some (c\<lparr>ctx_pushDistance := Some a\<rparr>)) = a
   \<and> pushDistance None None = Num (Fin 180)
   \<and> pushDistance (Some (PushBool True)) None = Num (Fin 180)
   \<and> pushDistance (Some (PushObj \<lparr>distance = None\<rparr>)) None = Num (Fin 180)
   \<and> pushDistance None (Some (c\<lparr>ctx_pushDistance := None\<rparr>)) = Num (Fin 180)
   \<and> pushDistance (Some (PushBool True)) (Some (c\<lparr>ctx_pushDistance := None\<rparr>)) = Num (Fin 180)
   \<and> pushDistance (Some (PushObj \<lparr>distance = None\<rparr>)) (Some (c\<lparr>ctx_pushDistance := None\<rparr>))
       = Num (Fin 180)
   \<and> pushDistance (Some (PushBool False)) ctx = Num (Fin 0)
   \<and> pushDistance (Some (PushObj \<lparr>distance = Some (Num (Fin 40))\<rparr>)) ctx = Num (Fin 40)
   \<and> pushDistance (Some (PushBool True)) (Some (mergedContext i (Num (Fin 120)))) = Num (Fin 120)"
  by (simp add: pushDistance_def pushConfig_def mergedContext_def)

section \<open>Push distance: a distance that is not a number\<close>

text \<open>
  Against claim C8 as stated: the configuration \<^verbatim>\<open>push = {distance: "abc"}\<close>, with no
  ancestor, resolves to the string itself and not to the default 180.
\<close>

theorem string_distance_is_used:
  "pushDistance (Some (PushObj \<lparr>distance = Some (Str ''abc'')\<rparr>)) None = Str ''abc''
   \<and> pushDistance (Some (PushObj \<lparr>distance = Some (Str ''abc'')\<rparr>)) None \<noteq> Num (Fin 180)"
  by (simp add: pushDistance_def pushConfig_def)

text \<open>
  Claim C8, amended. A distance that is present in the push configuration, a number or a
  string, numeric or not, is the push distance exactly as given; only a configuration
  without distance falls back, to the ancestor's distance and then to the default 180.
  The resolution is total: it has no failing case.
\<close>

theorem present_distance_is_used:
  "pushDistance (Some (PushObj \<lparr>distance = Some v\<rparr>)) ctx = v
   \<and> pushDistance (Some (PushObj \<lparr>distance = None\<rparr>)) (Some (c\<lparr>ctx_pushDistance := Some a\<rparr>)) = a
   \<and> pushDistance (Some (PushObj \<lparr>distance = None\<rparr>)) (Some (c\<lparr>ctx_pushDistance := None\<rparr>))
       = Num (Fin 180)
   \<and> pushDistance (Some (PushObj \<lparr>distance = None\<rparr>)) None = Num (Fin 180)"
  by (simp add: pushDistance_def pushConfig_def)

section \<open>The push transform\<close>

lemma node_style_panelNode:
  "node_style (panelNode js self p ctx pushed st)
     = wrapperStyle js pushed (pushDistance (push p) ctx) (placement p)
         ++ spread (contentWrapperStyle p) ++ zIndexStyle (zIndex p)"
  by (simp add: panelNode_def plain_div_def)




























section \<open>Telling the ancestor to push and to pull\<close>

lemma truthy_Some_True: "truthy x = (x = Some True)"
  by (cases x) auto






















lemma step_keeps_mount_closure:
  "mount_parentContext (fst (step inst e)) = mount_parentContext inst
   \<and> mount_scrollLocker (fst (step inst e)) = mount_scrollLocker inst"
  by (cases e) (simp_all add: rerender_def)

lemma run_keeps_mount_closure:
  "mount_parentContext (fst (run inst es)) = mount_parentContext inst
   \<and> mount_scrollLocker (fst (run inst es)) = mount_scrollLocker inst"
proof (induction es arbitrary: inst)
  case Nil
  show ?case by simp
next
  case (Cons e es)
  obtain i1 c1 where s: "step inst e = (i1, c1)" by (cases "step inst e")
  obtain i2 c2 where r: "run i1 es = (i2, c2)" by (cases "run i1 es")
  from Cons.IH [of i1] r have "mount_parentContext i2 = mount_parentContext i1
      \<and> mount_scrollLocker i2 = mount_scrollLocker i1" by simp
  moreover from step_keeps_mount_closure [of inst e] s
  have "mount_parentContext i1 = mount_parentContext inst
      \<and> mount_scrollLocker i1 = mount_scrollLocker inst" by simp
  ultimately show ?case using s r by simp
qed

lemma unmount_after_run:
  "unmount (fst (run (fst (mount self p ctx r)) es))
     = unLock (scrollLocker p) @ opt_call (Option.bind ctx ctx_pull) NoArg"
  by (simp add: unmount_def cleanup_def run_keeps_mount_closure) (simp add: mount_def)







section \<open>The focus trap\<close>

text \<open>
  Claim C3. On a Tab key event, with the two sentinels mounted: without shift and with the
  focus on the end sentinel, the handler focuses the start sentinel, scroll suppressed;
  with shift and the focus on the start sentinel, it focuses the end sentinel, scroll
  suppressed; with the focus anywhere else it makes no call at all, so the default
  traversal is untouched.
\<close>

theorem tab_wraps_between_sentinels:
  "keyCode ev = TAB \<Longrightarrow> sentinelStartRef r = Node s \<Longrightarrow> sentinelEndRef r = Node e \<Longrightarrow>
     (\<not> shiftKey ev \<and> a = Node e \<longrightarrow> onPanelKeyDown p r a ev = Inr [Focus s True])
   \<and> (shiftKey ev \<and> a = Node s \<longrightarrow> onPanelKeyDown p r a ev = Inr [Focus e True])
   \<and> (\<not> shiftKey ev \<and> a \<noteq> Node e \<longrightarrow> onPanelKeyDown p r a ev = Inr [])
   \<and> (shiftKey ev \<and> a \<noteq> Node s \<longrightarrow> onPanelKeyDown p r a ev = Inr [])"
  by (simp add: onPanelKeyDown_def)

theorem tab_wraps_between_sentinels_witness:
  "keyCode \<lparr>keyCode = 9, shiftKey = False\<rparr> = TAB
   \<and> sentinelStartRef mounted_refs = Node 1 \<and> sentinelEndRef mounted_refs = Node 2
   \<and> onPanelKeyDown default_props mounted_refs (Node 2) \<lparr>keyCode = 9, shiftKey = False\<rparr>
       = Inr [Focus 1 True]
   \<and> onPanelKeyDown default_props mounted_refs (Node 1) \<lparr>keyCode = 9, shiftKey = True\<rparr>
       = Inr [Focus 2 True]
   \<and> onPanelKeyDown default_props mounted_refs (Node 7) \<lparr>keyCode = 9, shiftKey = False\<rparr> = Inr []
   \<and> onPanelKeyDown default_props mounted_refs (Node 7) \<lparr>keyCode = 9, shiftKey = True\<rparr> = Inr []"
  using tab_wraps_between_sentinels
          [of "\<lparr>keyCode = 9, shiftKey = False\<rparr>" mounted_refs 1 2 "Node 2" default_props]
        tab_wraps_between_sentinels
          [of "\<lparr>keyCode = 9, shiftKey = True\<rparr>" mounted_refs 1 2 "Node 1" default_props]
        tab_wraps_between_sentinels
          [of "\<lparr>keyCode = 9, shiftKey = False\<rparr>" mounted_refs 1 2 "Node 7" default_props]
        tab_wraps_between_sentinels
          [of "\<lparr>keyCode = 9, shiftKey = True\<rparr>" mounted_refs 1 2 "Node 7" default_props]
  by (simp add: TAB_def mounted_refs_def)

section \<open>Closing with the escape key\<close>

text \<open>
  Claim C4. On an ESC key event: with a close callback and \<^verbatim>\<open>keyboard\<close> true the callback
  is called exactly once, with the event; with \<^verbatim>\<open>keyboard\<close> false or unset it is not
  called; without a close callback nothing is called; and the handler never faults.
\<close>

theorem escape_closes_when_keyboard:
  "keyCode ev = ESC \<Longrightarrow>
     (onClose p = Some f \<and> keyboard p = Some True \<longrightarrow>
        onPanelKeyDown p r a ev = Inr [Call f (EventArg ev)])
   \<and> (keyboard p = Some False \<longrightarrow> onPanelKeyDown p r a ev = Inr [])
   \<and> (keyboard p = None \<longrightarrow> onPanelKeyDown p r a ev = Inr [])
   \<and> (onClose p = None \<longrightarrow> onPanelKeyDown p r a ev = Inr [])
   \<and> onPanelKeyDown p r a ev \<noteq> Inl TypeError"
  by (auto simp add: onPanelKeyDown_def ESC_def TAB_def)

theorem escape_closes_when_keyboard_witness:
  "keyCode \<lparr>keyCode = 27, shiftKey = False\<rparr> = ESC
   \<and> onPanelKeyDown (default_props\<lparr>onClose := Some (External 5), keyboard := Some True\<rparr>)
        mounted_refs Null \<lparr>keyCode = 27, shiftKey = False\<rparr>
       = Inr [Call (External 5) (EventArg \<lparr>keyCode = 27, shiftKey = False\<rparr>)]
   \<and> onPanelKeyDown (default_props\<lparr>onClose := Some (External 5), keyboard := Some False\<rparr>)
        mounted_refs Null \<lparr>keyCode = 27, shiftKey = False\<rparr> = Inr []
   \<and> onPanelKeyDown (default_props\<lparr>onClose := Some (External 5)\<rparr>)
        mounted_refs Null \<lparr>keyCode = 27, shiftKey = False\<rparr> = Inr []
   \<and> onPanelKeyDown (default_props\<lparr>keyboard := Some True\<rparr>)
        mounted_refs Null \<lparr>keyCode = 27, shiftKey = False\<rparr> = Inr []"
  using escape_closes_when_keyboard
          [of "\<lparr>keyCode = 27, shiftKey = False\<rparr>"
              "default_props\<lparr>onClose := Some (External 5), keyboard := Some True\<rparr>"
              "External 5" mounted_refs Null]
        escape_closes_when_keyboard
          [of "\<lparr>keyCode = 27, shiftKey = False\<rparr>"
              "default_props\<lparr>onClose := Some (External 5), keyboard := Some False\<rparr>"
              "External 5" mounted_refs Null]
        escape_closes_when_keyboard
          [of "\<lparr>keyCode = 27, shiftKey = False\<rparr>"
              "default_props\<lparr>onClose := Some (External 5)\<rparr>" "External 5" mounted_refs Null]
        escape_closes_when_keyboard
          [of "\<lparr>keyCode = 27, shiftKey = False\<rparr>"
              "default_props\<lparr>keyboard := Some True\<rparr>" "External 5" mounted_refs Null]
  by (simp add: ESC_def default_props_def)

section \<open>The scroll lock\<close>

lemma locker_calls_append: "locker_calls (a @ b) = locker_calls a @ locker_calls b"
  by (simp add: locker_calls_def)

lemma locker_calls_Nil: "locker_calls [] = []"
  by (simp add: locker_calls_def)

lemma locker_calls_focus: "locker_calls (focus r) = []"
  by (cases r) (simp_all add: locker_calls_def)

lemma locker_calls_opt_call: "locker_calls (opt_call f a) = []"
  by (cases f) (simp_all add: locker_calls_def)

lemma locker_calls_lock: "locker_calls (lock l) = lock l"
  by (cases l) (simp_all add: locker_calls_def)

lemma locker_calls_unLock: "locker_calls (unLock l) = unLock l"
  by (cases l) (simp_all add: locker_calls_def)

lemma locker_calls_autoFocus_effect: "locker_calls (autoFocus_effect p r) = []"
  by (simp add: autoFocus_effect_def locker_calls_focus locker_calls_Nil)

lemma locker_calls_push_effect: "locker_calls (push_effect p ctx) = []"
  by (simp add: push_effect_def locker_calls_opt_call)

lemma locker_calls_lock_effect:
  "locker_calls (lock_effect p) = (if truthy (open p) \<and> truthy (mask p) then lock (scrollLocker p) else [])"
  by (simp add: lock_effect_def locker_calls_lock locker_calls_Nil)

lemmas locker_simps =
  locker_calls_append locker_calls_Nil locker_calls_opt_call locker_calls_unLock
  locker_calls_autoFocus_effect locker_calls_push_effect locker_calls_lock_effect

lemma rerender_locks_once:
  "truthy (open p) \<Longrightarrow> truthy (mask p) \<Longrightarrow>
   \<not> (truthy (open (inst_props inst)) \<and> truthy (mask (inst_props inst))) \<Longrightarrow>
   scrollLocker p = Some l \<Longrightarrow>
     locker_calls (snd (rerender p ctx inst)) = [Lock l]"
  by (auto simp add: rerender_def locker_simps truthy_Some_True)

lemma mount_locks_once:
  "truthy (open p) \<Longrightarrow> truthy (mask p) \<Longrightarrow> scrollLocker p = Some l \<Longrightarrow>
     locker_calls (snd (mount self p ctx r)) = [Lock l]"
  by (simp add: mount_def locker_simps)

lemma leave_unlocks_once:
  "scrollLocker p = Some l \<Longrightarrow> locker_calls (onVisibleChanged p False) = [UnLock l]"
  by (cases "afterOpenChange p") (simp_all add: onVisibleChanged_def locker_calls_def)

lemma unmount_unlocks:
  "scrollLocker p = Some l \<Longrightarrow>
     locker_calls (unmount (fst (run (fst (mount self p ctx r)) es))) = [UnLock l]"
  by (cases "Option.bind ctx ctx_pull") (simp_all add: unmount_after_run locker_calls_def)

lemma rerender_same_deps_no_lock:
  "open p = open (inst_props inst) \<Longrightarrow> mask p = mask (inst_props inst) \<Longrightarrow>
     locker_calls (snd (rerender p ctx inst)) = []"
  by (simp add: rerender_def locker_simps)

lemma no_lock_in_opt_call: "filter is_lock (opt_call f a) = []"
  by (cases f) simp_all

lemma no_lock_in_unLock: "filter is_lock (unLock l) = []"
  by (cases l) simp_all

lemma no_lock_in_focus: "filter is_lock (focus r) = []"
  by (cases r) simp_all

lemma no_lock_in_onVisibleChanged: "filter is_lock (onVisibleChanged p b) = []"
  by (simp add: onVisibleChanged_def no_lock_in_opt_call no_lock_in_unLock)

lemma no_lock_in_rerender_same:
  "truthy (open (inst_props inst)) \<Longrightarrow> truthy (mask (inst_props inst)) \<Longrightarrow>
   truthy (open p) \<Longrightarrow> truthy (mask p) \<Longrightarrow>
     filter is_lock (snd (rerender p ctx inst)) = []"
  by (simp add: rerender_def truthy_Some_True autoFocus_effect_def no_lock_in_focus)

lemma no_relock_while_open_and_masked:
  "truthy (open (inst_props inst)) \<Longrightarrow> truthy (mask (inst_props inst)) \<Longrightarrow> open_and_masked es \<Longrightarrow>
     filter is_lock (snd (run inst es)) = []"
proof (induction es arbitrary: inst)
  case Nil
  show ?case by simp
next
  case (Cons e es)
  show ?case
  proof (cases e)
    case (Render p ctx)
    with Cons.prems have pm: "truthy (open p)" "truthy (mask p)" and rest: "open_and_masked es"
      by simp_all
    have keep: "inst_props (fst (rerender p ctx inst)) = p"
      by (simp add: rerender_def)
    have here: "filter is_lock (snd (rerender p ctx inst)) = []"
      using Cons.prems(1,2) pm by (rule no_lock_in_rerender_same)
    have later: "filter is_lock (snd (run (fst (rerender p ctx inst)) es)) = []"
      using Cons.IH [of "fst (rerender p ctx inst)"] keep pm rest by simp
    show ?thesis using Render here later
      by (simp add: split_beta)
  next
    case (VisibleChanged b)
    with Cons.prems have rest: "open_and_masked es" by simp
    have later: "filter is_lock (snd (run inst es)) = []"
      using Cons.IH [of inst] Cons.prems(1,2) rest by simp
    show ?thesis using VisibleChanged later
      by (simp add: split_beta no_lock_in_onVisibleChanged)
  qed
qed

lemma locker_calls_rerender:
  "locker_calls (snd (rerender p ctx inst))
     = (if truthy (open p) \<and> truthy (mask p)
           \<and> \<not> (truthy (open (inst_props inst)) \<and> truthy (mask (inst_props inst)))
        then lock (scrollLocker p) else [])"
  by (auto simp add: rerender_def locker_simps locker_calls_lock truthy_Some_True)

lemma locker_calls_mount:
  "locker_calls (snd (mount self p ctx r))
     = (if truthy (open p) \<and> truthy (mask p) then lock (scrollLocker p) else [])"
  by (simp add: mount_def locker_simps locker_calls_lock)

lemma locker_calls_onVisibleChanged:
  "locker_calls (onVisibleChanged p v) = (if v then [] else unLock (scrollLocker p))"
  by (simp add: onVisibleChanged_def locker_simps)

lemma locker_calls_unmount:
  "locker_calls (unmount (fst (run (fst (mount self p ctx r)) es))) = unLock (scrollLocker p)"
  by (simp add: unmount_after_run locker_simps)

lemma is_lock_of_locker_calls: "filter is_lock (locker_calls cs) = filter is_lock cs"
proof (induction cs)
  case Nil
  show ?case by (simp add: locker_calls_def)
next
  case (Cons c cs)
  then show ?case by (cases c) (simp_all add: locker_calls_def)
qed

lemma is_lock_of_lock: "filter is_lock (lock l) = lock l"
  by (cases l) simp_all

lemma locks_of_rerender:
  "filter is_lock (snd (rerender p ctx inst))
     = (if truthy (open p) \<and> truthy (mask p)
           \<and> \<not> (truthy (open (inst_props inst)) \<and> truthy (mask (inst_props inst)))
        then lock (scrollLocker p) else [])"
proof -
  have "filter is_lock (snd (rerender p ctx inst))
      = filter is_lock (locker_calls (snd (rerender p ctx inst)))"
    by (simp add: is_lock_of_locker_calls)
  also have "\<dots> = filter is_lock
      (if truthy (open p) \<and> truthy (mask p)
          \<and> \<not> (truthy (open (inst_props inst)) \<and> truthy (mask (inst_props inst)))
       then lock (scrollLocker p) else [])"
    by (simp only: locker_calls_rerender)
  also have "\<dots> = (if truthy (open p) \<and> truthy (mask p)
          \<and> \<not> (truthy (open (inst_props inst)) \<and> truthy (mask (inst_props inst)))
       then lock (scrollLocker p) else [])"
    by (simp add: is_lock_of_lock)
  finally show ?thesis .
qed

lemma locks_of_run:
  "filter is_lock (snd (run inst es))
     = lock_on_rising_edge (truthy (open (inst_props inst)) \<and> truthy (mask (inst_props inst))) es"
proof (induction es arbitrary: inst)
  case Nil
  show ?case by simp
next
  case (Cons e es)
  show ?case
  proof (cases e)
    case (Render p ctx)
    have keep: "inst_props (fst (rerender p ctx inst)) = p"
      by (simp add: rerender_def)
    have later: "filter is_lock (snd (run (fst (rerender p ctx inst)) es))
        = lock_on_rising_edge (truthy (open p) \<and> truthy (mask p)) es"
      using Cons.IH [of "fst (rerender p ctx inst)"] keep by simp
    show ?thesis
    proof (cases "truthy (open p) \<and> truthy (mask p)")
      case True
      then show ?thesis using Render later
        by (cases "truthy (open (inst_props inst)) \<and> truthy (mask (inst_props inst))")
           (auto simp add: split_beta locks_of_rerender)
    next
      case False
      then show ?thesis using Render later
        by (auto simp add: split_beta locks_of_rerender)
    qed
  next
    case (VisibleChanged b)
    show ?thesis using VisibleChanged Cons.IH [of inst]
      by (simp add: split_beta no_lock_in_onVisibleChanged)
  qed
qed

lemma reopening_locks_again:
  "truthy (open (inst_props inst)) \<Longrightarrow> truthy (mask (inst_props inst)) \<Longrightarrow>
   \<not> truthy (open p1) \<Longrightarrow> truthy (open p2) \<Longrightarrow> truthy (mask p2) \<Longrightarrow> scrollLocker p2 = Some l \<Longrightarrow>
     locker_calls (snd (run inst [Render p1 c1, Render p2 c2])) = [Lock l]"
proof -
  assume a: "truthy (open (inst_props inst))" "truthy (mask (inst_props inst))"
    "\<not> truthy (open p1)" "truthy (open p2)" "truthy (mask p2)" "scrollLocker p2 = Some l"
  have k1: "inst_props (fst (rerender p1 c1 inst)) = p1" by (simp add: rerender_def)
  have first: "locker_calls (snd (rerender p1 c1 inst)) = []"
    using a by (simp add: locker_calls_rerender)
  have second: "locker_calls (snd (rerender p2 c2 (fst (rerender p1 c1 inst)))) = [Lock l]"
    using a k1 by (simp add: locker_calls_rerender)
  show ?thesis using first second
    by (simp add: split_beta locker_calls_append)
qed

text \<open>
  Against claim C5 as stated: an overlay mounted open with a mask, whose \<^verbatim>\<open>mask\<close> prop is
  then turned off and on again while it stays open, calls \<^verbatim>\<open>lock()\<close> twice with no
  \<^verbatim>\<open>unLock()\<close> in between (the only \<^verbatim>\<open>unLock()\<close> is that of the unmount).
\<close>

theorem lock_twice_without_unlock:
  "locker_calls (lifetime 0 open_locked_props None mounted_refs
       [Render (open_locked_props\<lparr>mask := Some False\<rparr>) None, Render open_locked_props None])
     = [Lock 0, Lock 0, UnLock 0]
   \<and> \<not> lock_discipline False (lifetime 0 open_locked_props None mounted_refs
       [Render (open_locked_props\<lparr>mask := Some False\<rparr>) None, Render open_locked_props None])"
  by (simp add: lifetime_def mount_def rerender_def unmount_def cleanup_def locker_calls_def
      autoFocus_effect_def push_effect_def lock_effect_def open_locked_props_def default_props_def)

text \<open>
  Claim C5, amended. \<^verbatim>\<open>lock()\<close> is called once by the mount with \<^verbatim>\<open>open && mask\<close> true
  and by each render in which \<^verbatim>\<open>open && mask\<close> turns from false to true, and by no
  other mount or render; \<^verbatim>\<open>unLock()\<close> is called once when the panel's leave transition
  completes (not when its enter transition does) and once more at unmount, on the locker
  of the mount, whatever happened in between. So over any sequence of renders and
  completion reports the \<^verbatim>\<open>lock()\<close> calls are exactly those of the rising edges of
  \<^verbatim>\<open>open && mask\<close>: two of them always have a render with \<^verbatim>\<open>open && mask\<close> false between
  them, but not always an \<^verbatim>\<open>unLock()\<close>, as when an open overlay is closed and reopened
  before the leave transition has completed.
\<close>

theorem scroll_lock_calls:
  "(truthy (open p) \<and> truthy (mask p)
      \<and> \<not> (truthy (open (inst_props inst)) \<and> truthy (mask (inst_props inst)))
      \<and> scrollLocker p = Some l \<longrightarrow>
        locker_calls (snd (rerender p ctx inst)) = [Lock l])
   \<and> (truthy (open p) \<and> truthy (mask p) \<and> scrollLocker p = Some l \<longrightarrow>
        locker_calls (snd (mount self p ctx r)) = [Lock l])
   \<and> (scrollLocker p = Some l \<longrightarrow> locker_calls (onVisibleChanged p False) = [UnLock l])
   \<and> (scrollLocker p = Some l \<longrightarrow>
        locker_calls (unmount (fst (run (fst (mount self p ctx r)) es))) = [UnLock l])
   \<and> (open p = open (inst_props inst) \<and> mask p = mask (inst_props inst) \<longrightarrow>
        locker_calls (snd (rerender p ctx inst)) = [])
   \<and> (truthy (open (inst_props inst)) \<and> truthy (mask (inst_props inst)) \<and> open_and_masked es \<longrightarrow>
        filter is_lock (snd (run inst es)) = [])
   \<and> locker_calls (snd (rerender p ctx inst))
       = (if truthy (open p) \<and> truthy (mask p)
             \<and> \<not> (truthy (open (inst_props inst)) \<and> truthy (mask (inst_props inst)))
          then lock (scrollLocker p) else [])
   \<and> locker_calls (snd (mount self p ctx r))
       = (if truthy (open p) \<and> truthy (mask p) then lock (scrollLocker p) else [])
   \<and> locker_calls (onVisibleChanged p v) = (if v then [] else unLock (scrollLocker p))
   \<and> locker_calls (unmount (fst (run (fst (mount self p ctx r)) es))) = unLock (scrollLocker p)
   \<and> filter is_lock (snd (run inst es))
       = lock_on_rising_edge
           (truthy (open (inst_props inst)) \<and> truthy (mask (inst_props inst))) es
   \<and> (truthy (open (inst_props inst)) \<and> truthy (mask (inst_props inst))
        \<and> \<not> truthy (open pa) \<and> truthy (open pb) \<and> truthy (mask pb)
        \<and> scrollLocker pb = Some l \<longrightarrow>
        locker_calls (snd (run inst [Render pa ca, Render pb cb])) = [Lock l])"
  using rerender_locks_once [of p inst l ctx] mount_locks_once [of p l self ctx r]
    leave_unlocks_once [of p l] unmount_unlocks [of p l self ctx r es]
    rerender_same_deps_no_lock [of p inst ctx] no_relock_while_open_and_masked [of inst es]
    locker_calls_rerender [of p ctx inst] locker_calls_mount [of self p ctx r]
    locker_calls_onVisibleChanged [of p v] locker_calls_unmount [of self p ctx r es]
    locks_of_run [of inst es] reopening_locks_again [of inst pa pb l ca cb]
  by simp

theorem scroll_lock_calls_witness:
  "truthy (open open_locked_props) \<and> truthy (mask open_locked_props)
   \<and> \<not> truthy (open (inst_props closed_child))
   \<and> scrollLocker open_locked_props = Some 0
   \<and> locker_calls (snd (rerender open_locked_props None closed_child)) = [Lock 0]
   \<and> locker_calls (snd (mount 0 open_locked_props None mounted_refs)) = [Lock 0]
   \<and> locker_calls (onVisibleChanged open_locked_props False) = [UnLock 0]
   \<and> locker_calls (unmount (fst (run (fst (mount 0 open_locked_props None mounted_refs))
        [Render (open_locked_props\<lparr>open := Some False\<rparr>) None, VisibleChanged False]))) = [UnLock 0]
   \<and> open open_locked_props = open (inst_props open_locked)
   \<and> mask open_locked_props = mask (inst_props open_locked)
   \<and> locker_calls (snd (rerender open_locked_props None open_locked)) = []
   \<and> truthy (open (inst_props open_locked)) \<and> truthy (mask (inst_props open_locked))
   \<and> open_and_masked [Render (open_locked_props\<lparr>autoFocus := Some True\<rparr>) None,
        VisibleChanged True, Render open_locked_props None]
   \<and> filter is_lock (snd (run open_locked
        [Render (open_locked_props\<lparr>autoFocus := Some True\<rparr>) None,
         VisibleChanged True, Render open_locked_props None])) = []
   \<and> \<not> truthy (open (open_locked_props\<lparr>open := Some False\<rparr>))
   \<and> locker_calls (snd (run open_locked
        [Render (open_locked_props\<lparr>open := Some False\<rparr>) None, Render open_locked_props None]))
       = [Lock 0]
   \<and> locker_calls (snd (mount 0 (open_locked_props\<lparr>open := Some False\<rparr>) None mounted_refs)) = []"
  using scroll_lock_calls
          [where p = open_locked_props and inst = closed_child and l = 0 and ctx = None
             and self = 0 and r = mounted_refs and v = True
             and es = "[Render (open_locked_props\<lparr>open := Some False\<rparr>) None, VisibleChanged False]"
             and pa = "open_locked_props\<lparr>open := Some False\<rparr>" and pb = open_locked_props
             and ca = None and cb = None]
        scroll_lock_calls
          [where p = open_locked_props and inst = open_locked and l = 0 and ctx = None
             and self = 0 and r = mounted_refs and v = True
             and es = "[Render (open_locked_props\<lparr>autoFocus := Some True\<rparr>) None,
                        VisibleChanged True, Render open_locked_props None]"
             and pa = "open_locked_props\<lparr>open := Some False\<rparr>" and pb = open_locked_props
             and ca = None and cb = None]
        scroll_lock_calls
          [where p = "open_locked_props\<lparr>open := Some False\<rparr>" and inst = open_locked and l = 0
             and ctx = None and self = 0 and r = mounted_refs and v = True and es = "[]"
             and pa = "open_locked_props\<lparr>open := Some False\<rparr>" and pb = open_locked_props
             and ca = None and cb = None]
  by (simp add: open_locked_props_def open_locked_def closed_child_def mount_def default_props_def)

section \<open>The end of the leave transition\<close>

lemma panel_retained:
  "\<not> truthy (open p) \<Longrightarrow> phase st = Hidden \<Longrightarrow> rendered st \<Longrightarrow>
     motion_render (panel_motion_props self p) st (panel_element p)
       = Some (panel_element p (Some (prefixCls p @ ''-content-hidden'')) Map.empty)"
  by (simp add: motion_render_def panel_motion_props_def)

lemma mask_removed:
  "\<not> truthy (open p) \<Longrightarrow> phase st = Hidden \<Longrightarrow>
   motion_removeOnLeave (spread_motion (maskMotion p)) \<noteq> Some False \<Longrightarrow>
   \<not> truthy (motion_forceRender (spread_motion (maskMotion p))) \<Longrightarrow>
     motion_render (mask_motion_props p) st (mask_div p) = None"
  by (simp add: motion_render_def mask_motion_props_def)

text \<open>
  Against claim C7 as stated: a closed overlay whose \<^verbatim>\<open>maskMotion\<close> carries
  \<^verbatim>\<open>removeOnLeave: false\<close> keeps its mask element mounted after the leave transition,
  with the marker class that \<^verbatim>\<open>maskMotion\<close> names.
\<close>

theorem mask_retained_by_maskMotion:
  "maskNode retaining_mask_props leaved
     = Some (CSSMotion ''mask'' (mask_motion_props retaining_mask_props)
               (Some (mask_div retaining_mask_props (Some ''mask-hidden'') Map.empty)))
   \<and> node_children (the (maskNode retaining_mask_props leaved)) \<noteq> []"
  by (simp add: maskNode_def motion_render_def mask_motion_props_def retaining_mask_props_def
      default_props_def leaved_def no_motion_def)

text \<open>
  Claim C7, amended. When the panel's leave transition has completed, the panel is still
  in the tree and carries the class \<^verbatim>\<open>prefixCls-content-hidden\<close> beside its own; the
  mask element is unmounted when hidden unless the caller's \<^verbatim>\<open>maskMotion\<close> itself sets
  \<^verbatim>\<open>removeOnLeave: false\<close> or \<^verbatim>\<open>forceRender\<close>; and the completion report calls
  \<^verbatim>\<open>afterOpenChange(false)\<close>, then \<^verbatim>\<open>unLock()\<close> on the scroll locker, each when supplied.
\<close>

theorem leave_completion:
  "(\<not> truthy (open p) \<and> phase ps = Hidden \<and> rendered ps \<longrightarrow>
      node_children (panelNode js self p ctx pushed ps)
        = [CSSMotion ''panel'' (panel_motion_props self p)
             (Some (panel_element p (Some (prefixCls p @ ''-content-hidden'')) Map.empty))]
      \<and> node_class (panel_element p (Some (prefixCls p @ ''-content-hidden'')) Map.empty)
        = Some (classNames [ClassStr (className p), ClassStr (Some (prefixCls p @ ''-content-hidden''))]))
   \<and> (\<not> truthy (open p) \<and> phase ms = Hidden \<and> truthy (mask p)
        \<and> motion_removeOnLeave (spread_motion (maskMotion p)) \<noteq> Some False
        \<and> \<not> truthy (motion_forceRender (spread_motion (maskMotion p))) \<longrightarrow>
      maskNode p ms = Some (CSSMotion ''mask'' (mask_motion_props p) None))
   \<and> onVisibleChanged p False = opt_call (afterOpenChange p) (BoolArg False) @ unLock (scrollLocker p)
   \<and> (afterOpenChange p = Some f \<and> scrollLocker p = Some l \<longrightarrow>
        onVisibleChanged p False = [Call f (BoolArg False), UnLock l])"
  using panel_retained [of p ps self] mask_removed [of p ms]
  by (simp add: panelNode_def maskNode_def panel_element_def onVisibleChanged_def)

theorem leave_completion_witness:
  "\<not> truthy (open closed_masked_props) \<and> phase leaved = Hidden \<and> rendered leaved
   \<and> truthy (mask closed_masked_props)
   \<and> motion_removeOnLeave (spread_motion (maskMotion closed_masked_props)) \<noteq> Some False
   \<and> \<not> truthy (motion_forceRender (spread_motion (maskMotion closed_masked_props)))
   \<and> afterOpenChange closed_masked_props = Some (External 3)
   \<and> scrollLocker closed_masked_props = Some 0
   \<and> map (map node_class) (map node_children (node_children (panelNode plain_runtime 0 closed_masked_props None False leaved)))
       = [[Some ''rc-drawer-content-hidden'']]
   \<and> map node_children (maybe (maskNode closed_masked_props leaved)) = [[]]
   \<and> onVisibleChanged closed_masked_props False = [Call (External 3) (BoolArg False), UnLock 0]"
  using leave_completion
          [where p = closed_masked_props and ps = leaved and ms = leaved and js = plain_runtime
             and self = 0 and ctx = None and pushed = False and f = "External 3" and l = 0]
  by (simp add: closed_masked_props_def default_props_def leaved_def no_motion_def
      panel_element_def classNames_def)

section \<open>The order of the rendered children and the stacking index\<close>

lemma node_style_mask_div:
  "node_style (mask_div p c s) = s ++ spread (maskStyle p) ++ zIndexStyle (zIndex p)"
  by (simp add: mask_div_def plain_div_def)

text \<open>
  Against claim C9 as stated: with \<^verbatim>\<open>zIndex = 0\<close> the value is present, yet neither the
  panel wrapper nor the mask gets a \<^verbatim>\<open>zIndex\<close> style.
\<close>

theorem zero_zIndex_is_not_applied:
  "zIndex zero_layer_props = Some (Fin 0)
   \<and> node_style (panelNode plain_runtime 0 zero_layer_props None False shown) ''zIndex'' = None
   \<and> node_style (mask_div zero_layer_props None Map.empty) ''zIndex'' = None"
  by (simp add: node_style_panelNode node_style_mask_div zIndexStyle_def wrapperStyle_def
      zero_layer_props_def default_props_def)

text \<open>
  Claim C9, amended. Every render gives the root these children, in this order: the
  mask's transition (there exactly when \<^verbatim>\<open>mask\<close> is truthy), the start sentinel, the
  content wrapper holding the panel's transition, the end sentinel. A \<^verbatim>\<open>zIndex\<close> that is
  present and truthy (not 0, not NaN) is the \<^verbatim>\<open>zIndex\<close> of the style of both the content
  wrapper and the mask element.
\<close>

theorem render_order_and_zIndex:
  "node_children (snd (render js self p ctx pushed ms ps))
     = maybe (maskNode p ms) @ [sentinel ''start'', panelNode js self p ctx pushed ps, sentinel ''end'']
   \<and> map motion_key (maybe (maskNode p ms)) = (if truthy (mask p) then [Some ''mask''] else [])
   \<and> node_sentinel (sentinel ''start'') = Some ''start''
   \<and> node_sentinel (sentinel ''end'') = Some ''end''
   \<and> map motion_key (node_children (panelNode js self p ctx pushed ps)) = [Some ''panel'']
   \<and> (zIndex p = Some z \<and> truthy_number z \<longrightarrow>
        node_style (panelNode js self p ctx pushed ps) ''zIndex'' = Some (Num z)
        \<and> node_style (mask_div p c s) ''zIndex'' = Some (Num z))"
  by (simp add: render_def maskNode_def sentinel_def plain_div_def panelNode_def mask_div_def
      zIndexStyle_def)

theorem render_order_and_zIndex_witness:
  "zIndex layered_props = Some (Fin 7)
   \<and> truthy_number (Fin 7)
   \<and> map node_sentinel (node_children (snd (render plain_runtime 0 layered_props None False shown shown)))
       = [None, Some ''start'', None, Some ''end'']
   \<and> map motion_key (node_children (snd (render plain_runtime 0 layered_props None False shown shown)))
       = [Some ''mask'', None, None, None]
   \<and> map (\<lambda>n. node_style n ''zIndex'')
         (node_children (snd (render plain_runtime 0 layered_props None False shown shown)))
       = [None, None, Some (Num (Fin 7)), None]
   \<and> node_style (mask_div layered_props None Map.empty) ''zIndex'' = Some (Num (Fin 7))"
  using render_order_and_zIndex
          [where js = plain_runtime and self = 0 and p = layered_props and ctx = None
             and pushed = False and ms = shown and ps = shown and z = "Fin 7" and c = None
             and s = Map.empty]
  by (simp add: layered_props_def default_props_def sentinel_def plain_div_def maskNode_def
      panelNode_def)

section \<open>A stacking index of zero\<close>

lemma panel_element_zIndex: "panel_element (p\<lparr>zIndex := z\<rparr>) = panel_element p"
  by (intro ext) (simp add: panel_element_def)

lemma mask_div_zero_zIndex:
  "mask_div (p\<lparr>zIndex := Some (Fin 0)\<rparr>) = mask_div (p\<lparr>zIndex := None\<rparr>)"
  by (intro ext) (simp add: mask_div_def zIndexStyle_def)

lemma maskNode_zero_zIndex:
  "maskNode (p\<lparr>zIndex := Some (Fin 0)\<rparr>) ms = maskNode (p\<lparr>zIndex := None\<rparr>) ms"
  by (simp add: maskNode_def mask_motion_props_def mask_div_zero_zIndex)

lemma panelNode_zero_zIndex:
  "panelNode js self (p\<lparr>zIndex := Some (Fin 0)\<rparr>) ctx pushed ps
     = panelNode js self (p\<lparr>zIndex := None\<rparr>) ctx pushed ps"
  by (simp add: panelNode_def panel_motion_props_def panel_element_zIndex zIndexStyle_def)

text \<open>
  Claim C10. A \<^verbatim>\<open>zIndex\<close> of exactly 0 is treated as no \<^verbatim>\<open>zIndex\<close> at all: the style
  object built from it is empty, the whole render equals that of the same props without
  \<^verbatim>\<open>zIndex\<close>, and the styles of the mask and of the panel wrapper are the spreads written
  before it, with nothing added.
\<close>

theorem zero_zIndex_as_absent:
  "zIndexStyle (Some (Fin 0)) = Map.empty
   \<and> zIndexStyle (Some (Fin 0)) = zIndexStyle None
   \<and> render js self (p\<lparr>zIndex := Some (Fin 0)\<rparr>) ctx pushed ms ps
       = render js self (p\<lparr>zIndex := None\<rparr>) ctx pushed ms ps
   \<and> node_style (mask_div (p\<lparr>zIndex := Some (Fin 0)\<rparr>) c s) = s ++ spread (maskStyle p)
   \<and> node_style (panelNode js self (p\<lparr>zIndex := Some (Fin 0)\<rparr>) ctx pushed ps)
       = wrapperStyle js pushed (pushDistance (push p) ctx) (placement p)
           ++ spread (contentWrapperStyle p)"
  by (simp add: render_def maskNode_zero_zIndex panelNode_zero_zIndex node_style_panelNode
      node_style_mask_div) (simp add: zIndexStyle_def)


end
